theory Spec2Isabelle
  imports Main "HOL-Library.Sublist"
begin

section \<open>The REST sensor platform (homeassistant/components/sensor/rest.py)\<close>

text \<open>
  The module polls an HTTP resource and publishes the body as the state of a sensor.
  Everything the Python does beyond computing a value is explicit here:
  \<^item> the objects (\<open>RestDataGet\<close>, \<open>RestDataPost\<close>, \<open>RestSensor\<close>) are records, and a
    method takes \<open>self\<close> and returns it as the call leaves it, also when it raises;
  \<^item> an exception is the \<open>Inl\<close> of the result \<open>exn + 'a\<close>;
  \<^item> the calls into the \<open>requests\<close> library and into the logger are recorded in an
    \<open>io\<close> record, in the order they are made;
  \<^item> what the network answers, and what the clock shows, are inputs of each call.
\<close>

subsection \<open>Python values and exceptions\<close>

text \<open>
  The exceptions that occur: those of \<open>requests.exceptions\<close> that the module names,
  that a request with a timeout raises or that a malformed URL leads to, and the
  built-in ones raised by the operations on \<open>self.data\<close> and on an unassigned local
  variable.
\<close>

datatype exn =
    MissingSchema
  | InvalidSchema
  | InvalidURL
  | ConnectionError
  | ConnectTimeout
  | ReadTimeout
  | TypeError
  | KeyError
  | UnboundLocalError

text \<open>
  \<open>except requests.exceptions.ConnectionError\<close> matches the class and its subclasses. In
  \<open>requests\<close>, \<open>ConnectTimeout\<close> derives from \<open>ConnectionError\<close> and \<open>Timeout\<close>, and
  \<open>ReadTimeout\<close> from \<open>Timeout\<close> alone. \<open>MissingSchema\<close> (a URL without a scheme),
  \<open>InvalidSchema\<close> (a scheme that \<open>requests\<close> has no adapter for, as in
  \<open>htp://host/a\<close>) and \<open>InvalidURL\<close> are three classes, none a subclass of another
  or of \<open>ConnectionError\<close>.
\<close>

fun isinstance_ConnectionError :: "exn \<Rightarrow> bool" where
  "isinstance_ConnectionError ConnectionError = True"
| "isinstance_ConnectionError ConnectTimeout = True"
| "isinstance_ConnectionError _ = False"

fun isinstance_MissingSchema :: "exn \<Rightarrow> bool" where
  "isinstance_MissingSchema MissingSchema = True"
| "isinstance_MissingSchema _ = False"

text \<open>
  \<open>self.data\<close> is bound to \<open>dict()\<close> by the constructors and to \<open>response.text\<close>, a
  \<open>str\<close>, by a successful fetch; the sensor's state starts as the \<open>str\<close> \<open>'n/a'\<close> and is
  assigned from it. So a value is a dictionary from strings to strings or a string.
\<close>

datatype pyval = Dict "string \<rightharpoonup> string" | Str string

text \<open>\<open>sub in s\<close> on two strings: \<open>sub\<close> occurs in \<open>s\<close> as a contiguous run.\<close>

fun str_contains :: "string \<Rightarrow> string \<Rightarrow> bool" where
  "str_contains sub [] = (sub = [])"
| "str_contains sub (c # cs) = (prefix sub (c # cs) \<or> str_contains sub cs)"

text \<open>\<open>k in v\<close>: a key of a dictionary, a substring of a string.\<close>

definition py_contains :: "string \<Rightarrow> pyval \<Rightarrow> bool" where
  "py_contains k v = (case v of Dict d \<Rightarrow> d k \<noteq> None | Str s \<Rightarrow> str_contains k s)"

text \<open>\<open>del v[k]\<close>: a \<open>str\<close> does not support item deletion.\<close>

definition py_delitem :: "pyval \<Rightarrow> string \<Rightarrow> exn + pyval" where
  "py_delitem v k =
     (case v of
        Dict d \<Rightarrow> (if d k = None then Inl KeyError else Inr (Dict (d(k := None))))
      | Str s \<Rightarrow> Inl TypeError)"

text \<open>\<open>v[k] = x\<close>: a \<open>str\<close> does not support item assignment.\<close>

definition py_setitem :: "pyval \<Rightarrow> string \<Rightarrow> string \<Rightarrow> exn + pyval" where
  "py_setitem v k x =
     (case v of
        Dict d \<Rightarrow> Inr (Dict (d(k \<mapsto> x)))
      | Str s \<Rightarrow> Inl TypeError)"

text \<open>\<open>v[k]\<close> with a string \<open>k\<close>: string indices must be integers.\<close>

definition py_getitem :: "pyval \<Rightarrow> string \<Rightarrow> exn + pyval" where
  "py_getitem v k =
     (case v of
        Dict d \<Rightarrow> (case d k of None \<Rightarrow> Inl KeyError | Some x \<Rightarrow> Inr (Str x))
      | Str s \<Rightarrow> Inl TypeError)"

subsection \<open>The environment: requests, the logger, the clock\<close>

datatype http_method = GET | POST

text \<open>
  One call of \<open>requests.get\<close> or \<open>requests.post\<close>: the URL (\<open>None\<close> when the configuration
  has no \<open>resource\<close>), the \<open>data\<close> argument (absent in a GET), \<open>timeout\<close> and \<open>verify\<close>.
\<close>

record request =
  req_method :: http_method
  req_url :: "string option"
  req_data :: "string option"
  req_timeout :: nat
  req_verify :: bool

text \<open>The attributes of a response that the module reads.\<close>

record response =
  ok :: bool
  status_code :: int
  resp_text :: string

datatype http_outcome = Returns response | Raises exn

text \<open>A call of \<open>_LOGGER.error(msg, *args)\<close>: the format string and its arguments.\<close>

record log_record =
  msg :: string
  args :: "int list"

record io =
  requested :: "request list"
  logged :: "log_record list"

definition LOGGER_error :: "string \<Rightarrow> int list \<Rightarrow> io \<Rightarrow> io" where
  "LOGGER_error m as w = w\<lparr>logged := logged w @ [\<lparr>msg = m, args = as\<rparr>]\<rparr>"

text \<open>
  The network as it answers during one call: the outcome of each request that could be
  made. The library call records the request and returns that outcome.
\<close>

type_synonym net = "request \<Rightarrow> http_outcome"

definition requests_get :: "net \<Rightarrow> string option \<Rightarrow> nat \<Rightarrow> bool \<Rightarrow> io \<Rightarrow> http_outcome \<times> io" where
  "requests_get nw u t v w =
     (let r = \<lparr>req_method = GET, req_url = u, req_data = None, req_timeout = t, req_verify = v\<rparr>
      in (nw r, w\<lparr>requested := requested w @ [r]\<rparr>))"

definition requests_post ::
  "net \<Rightarrow> string option \<Rightarrow> string option \<Rightarrow> nat \<Rightarrow> bool \<Rightarrow> io \<Rightarrow> http_outcome \<times> io" where
  "requests_post nw u d t v w =
     (let r = \<lparr>req_method = POST, req_url = u, req_data = d, req_timeout = t, req_verify = v\<rparr>
      in (nw r, w\<lparr>requested := requested w @ [r]\<rparr>))"

text \<open>
  What one call of a throttled method meets: the clock when the gate is checked
  (\<open>now\<close>), the clock when the wrapped method has completed (\<open>fin\<close>), both in
  microseconds, and the network in between.
\<close>

record call =
  now :: int
  fin :: int
  network :: net

text \<open>\<open>MIN_TIME_BETWEEN_UPDATES = timedelta(seconds=60)\<close>, in microseconds.\<close>

definition MIN_TIME_BETWEEN_UPDATES :: int where
  "MIN_TIME_BETWEEN_UPDATES = 60 * 1000000"

definition DEFAULT_NAME :: string where
  "DEFAULT_NAME = ''REST Sensor''"

definition DEFAULT_METHOD :: string where
  "DEFAULT_METHOD = ''GET''"

subsection \<open>The throttle\<close>

text \<open>
  Modelled from the spec: the state of the missing \<open>Throttle\<close>, kept per fetcher
  (spec 3 and 5): the wrapped object together with the time of the last run of its
  gated method, \<open>None\<close> before the first run.
\<close>

record 's throttled =
  target :: 's
  last_call :: "int option"

text \<open>
  Modelled from the spec: the gate of the decorator \<open>Throttle\<close> of
  \<open>homeassistant.util\<close>, which the module imports and whose code is not part of the
  sources at hand. The spec (4.1, throttle policy): the first call always executes; a
  later call executes only if \<open>now - last_execution_time >= min_interval\<close>.
\<close>

definition Throttle_due :: "int \<Rightarrow> int option \<Rightarrow> int \<Rightarrow> bool" where
  "Throttle_due min_time lc t_now =
     (case lc of None \<Rightarrow> True | Some t \<Rightarrow> t_now - t \<ge> min_time)"

text \<open>
  Modelled from the spec: the decorator \<open>Throttle\<close> itself, missing with its gate. The
  spec (3 and 4.1): a call that the gate lets through runs the wrapped operation; the
  time kept is that of the last successful invocation, read from the clock after the
  wrapped operation completes, so a run that raises leaves it as it was and the
  exception propagates; any other call is a no-op with no observable change.
\<close>

definition Throttle ::
  "int \<Rightarrow> ('s \<Rightarrow> io \<Rightarrow> (exn + unit) \<times> 's \<times> io) \<Rightarrow>
   int \<Rightarrow> int \<Rightarrow> 's throttled \<Rightarrow> io \<Rightarrow> (exn + unit) \<times> 's throttled \<times> io" where
  "Throttle min_time method t_now t_fin self w =
     (if Throttle_due min_time (last_call self) t_now then
        (case method (target self) w of
           (Inr u, s, w') \<Rightarrow> (Inr u, \<lparr>target = s, last_call = Some t_fin\<rparr>, w')
         | (Inl e, s, w') \<Rightarrow> (Inl e, \<lparr>target = s, last_call = last_call self\<rparr>, w'))
      else (Inr (), self, w))"

subsection \<open>The fetchers\<close>

record RestDataGet =
  resource :: "string option"
  verify_ssl :: bool
  data :: pyval

definition RestDataGet_init :: "string option \<Rightarrow> bool \<Rightarrow> RestDataGet throttled" where
  "RestDataGet_init res vfy =
     \<lparr>target = \<lparr>resource = res, verify_ssl = vfy, data = Dict Map.empty\<rparr>, last_call = None\<rparr>"

text \<open>
  The body of \<open>RestDataGet.update\<close>. An exception raised in the \<open>try\<close> block, by the
  request or by \<open>del\<close>, reaches the \<open>except\<close> clause, which takes instances of
  \<open>ConnectionError\<close> only; one raised in the handler propagates.
\<close>

definition RestDataGet_update_try :: "net \<Rightarrow> RestDataGet \<Rightarrow> io \<Rightarrow> (exn + unit) \<times> RestDataGet \<times> io" where
  "RestDataGet_update_try nw self w =
     (case requests_get nw (resource self) 10 (verify_ssl self) w of
        (Raises e, w1) \<Rightarrow> (Inl e, self, w1)
      | (Returns rsp, w1) \<Rightarrow>
          (case (if py_contains ''error'' (data self) then py_delitem (data self) ''error''
                 else Inr (data self)) of
             Inl e \<Rightarrow> (Inl e, self, w1)
           | Inr d \<Rightarrow> (Inr (), self\<lparr>data := Str (resp_text rsp)\<rparr>, w1)))"

definition RestDataGet_update_body :: "net \<Rightarrow> RestDataGet \<Rightarrow> io \<Rightarrow> (exn + unit) \<times> RestDataGet \<times> io" where
  "RestDataGet_update_body nw self w =
     (case RestDataGet_update_try nw self w of
        (Inr u, self1, w1) \<Rightarrow> (Inr u, self1, w1)
      | (Inl e, self1, w1) \<Rightarrow>
          (if isinstance_ConnectionError e then
             (let w2 = LOGGER_error ''No route to resource/endpoint.'' [] w1 in
              case py_setitem (data self1) ''error'' ''N/A'' of
                Inl e' \<Rightarrow> (Inl e', self1, w2)
              | Inr d \<Rightarrow> (Inr (), self1\<lparr>data := d\<rparr>, w2))
           else (Inl e, self1, w1)))"

text \<open>The request that \<open>RestDataGet.update\<close> makes.\<close>

definition get_request :: "RestDataGet \<Rightarrow> request" where
  "get_request self =
     \<lparr>req_method = GET, req_url = resource self, req_data = None, req_timeout = 10,
      req_verify = verify_ssl self\<rparr>"

definition RestDataGet_update ::
  "call \<Rightarrow> RestDataGet throttled \<Rightarrow> io \<Rightarrow> (exn + unit) \<times> RestDataGet throttled \<times> io" where
  "RestDataGet_update c =
     Throttle MIN_TIME_BETWEEN_UPDATES (RestDataGet_update_body (network c)) (now c) (fin c)"

record RestDataPost =
  resource :: "string option"
  payload :: "string option"
  verify_ssl :: bool
  data :: pyval

definition RestDataPost_init :: "string option \<Rightarrow> string option \<Rightarrow> bool \<Rightarrow> RestDataPost throttled" where
  "RestDataPost_init res pl vfy =
     \<lparr>target = \<lparr>resource = res, payload = pl, verify_ssl = vfy, data = Dict Map.empty\<rparr>,
      last_call = None\<rparr>"

definition RestDataPost_update_try :: "net \<Rightarrow> RestDataPost \<Rightarrow> io \<Rightarrow> (exn + unit) \<times> RestDataPost \<times> io" where
  "RestDataPost_update_try nw self w =
     (case requests_post nw (resource self) (payload self) 10 (verify_ssl self) w of
        (Raises e, w1) \<Rightarrow> (Inl e, self, w1)
      | (Returns rsp, w1) \<Rightarrow>
          (case (if py_contains ''error'' (data self) then py_delitem (data self) ''error''
                 else Inr (data self)) of
             Inl e \<Rightarrow> (Inl e, self, w1)
           | Inr d \<Rightarrow> (Inr (), self\<lparr>data := Str (resp_text rsp)\<rparr>, w1)))"

definition RestDataPost_update_body :: "net \<Rightarrow> RestDataPost \<Rightarrow> io \<Rightarrow> (exn + unit) \<times> RestDataPost \<times> io" where
  "RestDataPost_update_body nw self w =
     (case RestDataPost_update_try nw self w of
        (Inr u, self1, w1) \<Rightarrow> (Inr u, self1, w1)
      | (Inl e, self1, w1) \<Rightarrow>
          (if isinstance_ConnectionError e then
             (let w2 = LOGGER_error ''No route to resource/endpoint.'' [] w1 in
              case py_setitem (data self1) ''error'' ''N/A'' of
                Inl e' \<Rightarrow> (Inl e', self1, w2)
              | Inr d \<Rightarrow> (Inr (), self1\<lparr>data := d\<rparr>, w2))
           else (Inl e, self1, w1)))"

text \<open>The request that \<open>RestDataPost.update\<close> makes.\<close>

definition post_request :: "RestDataPost \<Rightarrow> request" where
  "post_request self =
     \<lparr>req_method = POST, req_url = resource self, req_data = payload self, req_timeout = 10,
      req_verify = verify_ssl self\<rparr>"

definition RestDataPost_update ::
  "call \<Rightarrow> RestDataPost throttled \<Rightarrow> io \<Rightarrow> (exn + unit) \<times> RestDataPost throttled \<times> io" where
  "RestDataPost_update c =
     Throttle MIN_TIME_BETWEEN_UPDATES (RestDataPost_update_body (network c)) (now c) (fin c)"

subsection \<open>The sensor\<close>

text \<open>
  \<open>self.rest\<close> is one of the two fetchers; the sensor calls its \<open>update\<close> and reads
  its \<open>data\<close>.
\<close>

datatype rest_obj = Get "RestDataGet throttled" | Post "RestDataPost throttled"

definition fetcher_update :: "call \<Rightarrow> rest_obj \<Rightarrow> io \<Rightarrow> (exn + unit) \<times> rest_obj \<times> io" where
  "fetcher_update c r w =
     (case r of
        Get g \<Rightarrow> (case RestDataGet_update c g w of (res, g', w') \<Rightarrow> (res, Get g', w'))
      | Post p \<Rightarrow> (case RestDataPost_update c p w of (res, p', w') \<Rightarrow> (res, Post p', w')))"

definition fetcher_data :: "rest_obj \<Rightarrow> pyval" where
  "fetcher_data r =
     (case r of Get g \<Rightarrow> RestDataGet.data (target g) | Post p \<Rightarrow> RestDataPost.data (target p))"

definition fetcher_last_call :: "rest_obj \<Rightarrow> int option" where
  "fetcher_last_call r = (case r of Get g \<Rightarrow> last_call g | Post p \<Rightarrow> last_call p)"

text \<open>The request that the fetcher makes when its gate lets the call through.\<close>

definition fetcher_request :: "rest_obj \<Rightarrow> request" where
  "fetcher_request r =
     (case r of Get g \<Rightarrow> get_request (target g) | Post p \<Rightarrow> post_request (target p))"

text \<open>
  Polling: the host calls \<open>update\<close> again and again, each call starting from the object
  and the log as the one before left them, whether it returned or raised. \<open>poll\<close> is
  the object and the log after the calls; \<open>request_times\<close> lists, for each call that
  made a request, the two clock readings of that call and whether the call returned
  normally, so that the cached value was assigned.
\<close>

fun poll :: "call list \<Rightarrow> rest_obj \<Rightarrow> io \<Rightarrow> rest_obj \<times> io" where
  "poll [] r w = (r, w)"
| "poll (c # cs) r w = (case fetcher_update c r w of (res, r', w') \<Rightarrow> poll cs r' w')"

fun request_times :: "call list \<Rightarrow> rest_obj \<Rightarrow> io \<Rightarrow> (int \<times> int \<times> bool) list" where
  "request_times [] r w = []"
| "request_times (c # cs) r w =
     (case fetcher_update c r w of
        (res, r', w') \<Rightarrow>
          (if requested w' \<noteq> requested w then [(now c, fin c, res = Inr ())] else [])
          @ request_times cs r' w')"

text \<open>
  The clock never runs backwards: from \<open>t\<close> on, every call reads \<open>now\<close> and then
  \<open>fin\<close>, and the next call starts after that.
\<close>

fun clock_ok :: "int \<Rightarrow> call list \<Rightarrow> bool" where
  "clock_ok t [] = True"
| "clock_ok t (c # cs) = (t \<le> now c \<and> now c \<le> fin c \<and> clock_ok (fin c) cs)"

text \<open>
  \<open>template.render_with_possible_json_value(hass, template, value, error_value)\<close> belongs
  to the host; it is a parameter, of the type \<open>'h renderer\<close>, where \<open>'h\<close> is the host
  object \<open>hass\<close>.
\<close>

type_synonym 'h renderer = "'h \<Rightarrow> string \<Rightarrow> pyval \<Rightarrow> string \<Rightarrow> string"

record 'h RestSensor =
  hass :: 'h
  rest :: rest_obj
  name :: string
  state :: pyval
  unit_of_measurement :: "string option"
  value_template :: "string option"

definition RestSensor_update ::
  "'h renderer \<Rightarrow> call \<Rightarrow> 'h RestSensor \<Rightarrow> io \<Rightarrow> (exn + unit) \<times> 'h RestSensor \<times> io" where
  "RestSensor_update render c self w =
     (case fetcher_update c (rest self) w of
        (Inl e, r, w1) \<Rightarrow> (Inl e, self\<lparr>rest := r\<rparr>, w1)
      | (Inr u, r, w1) \<Rightarrow>
          (let self1 = self\<lparr>rest := r\<rparr>; val = fetcher_data r in
           if py_contains ''error'' val then
             (case py_getitem val ''error'' of
                Inl e \<Rightarrow> (Inl e, self1, w1)
              | Inr x \<Rightarrow> (Inr (), self1\<lparr>state := x\<rparr>, w1))
           else
             (let val1 = (case value_template self1 of
                            Some t \<Rightarrow> Str (render (hass self1) t val ''N/A'')
                          | None \<Rightarrow> val)
              in (Inr (), self1\<lparr>state := val1\<rparr>, w1))))"

text \<open>The constructor: the fields, the placeholder state \<open>'n/a'\<close>, then \<open>self.update()\<close>.\<close>

definition RestSensor_init ::
  "'h renderer \<Rightarrow> call \<Rightarrow> 'h \<Rightarrow> rest_obj \<Rightarrow> string \<Rightarrow> string option \<Rightarrow> string option \<Rightarrow> io \<Rightarrow>
   (exn + unit) \<times> 'h RestSensor \<times> io" where
  "RestSensor_init render c h r nm unit tmpl w =
     RestSensor_update render c
       \<lparr>hass = h, rest = r, name = nm, state = Str ''n/a'', unit_of_measurement = unit,
        value_template = tmpl\<rparr> w"

subsection \<open>Setting the platform up\<close>

text \<open>
  The keys of \<open>config\<close> that the module reads, each absent (\<open>None\<close>) or present with a
  value of the type the configuration schema gives it.
\<close>

record config =
  cfg_resource :: "string option"
  cfg_method :: "string option"
  cfg_payload :: "string option"
  cfg_verify_ssl :: "bool option"
  cfg_name :: "string option"
  cfg_unit_of_measurement :: "string option"
  cfg_value_template :: "string option"

text \<open>\<open>config.get(key, default)\<close>.\<close>

definition config_get :: "'a option \<Rightarrow> 'a \<Rightarrow> 'a" where
  "config_get v d = (case v of None \<Rightarrow> d | Some x \<Rightarrow> x)"

text \<open>
  \<open>setup_platform(hass, config, add_devices)\<close>. The result is the value returned
  (\<open>Some False\<close> for \<open>False\<close>, \<open>None\<close> when the function falls off its end) or the
  exception raised, with the argument of every call of \<open>add_devices\<close>. The preflight
  request meets the network \<open>nw0\<close>, the first update of the sensor the call \<open>c\<close>.
  With a method other than \<open>'GET'\<close> and \<open>'POST'\<close> no branch assigns \<open>response\<close>, and
  reading it in \<open>response.ok\<close> raises \<open>UnboundLocalError\<close>. \<open>CHR 0x22\<close> is the
  double quote of the status message.
\<close>

definition setup_platform ::
  "'h renderer \<Rightarrow> net \<Rightarrow> call \<Rightarrow> 'h \<Rightarrow> config \<Rightarrow> io \<Rightarrow>
   (exn + bool option) \<times> 'h RestSensor list list \<times> io" where
  "setup_platform render nw0 c h cfg w =
     (let res = cfg_resource cfg;
          method = config_get (cfg_method cfg) DEFAULT_METHOD;
          pl = cfg_payload cfg;
          vfy = config_get (cfg_verify_ssl cfg) True;
          use_get = (method = ''GET'');
          use_post = (method \<noteq> ''GET'' \<and> method = ''POST'');
          attempt =
            (if use_get then
               (case requests_get nw0 res 10 vfy w of
                  (Raises e, w1) \<Rightarrow> (Inl e, w1)
                | (Returns rsp, w1) \<Rightarrow> (Inr rsp, w1))
             else if use_post then
               (case requests_post nw0 res pl 10 vfy w of
                  (Raises e, w1) \<Rightarrow> (Inl e, w1)
                | (Returns rsp, w1) \<Rightarrow> (Inr rsp, w1))
             else (Inl UnboundLocalError, w))
      in case attempt of
           (Inl e, w1) \<Rightarrow>
             (if isinstance_MissingSchema e then
                (Inr (Some False), [],
                 LOGGER_error ''Missing resource or schema in configuration. Add http:// to your URL.'' [] w1)
              else if isinstance_ConnectionError e then
                (Inr (Some False), [],
                 LOGGER_error ''No route to resource/endpoint. Please check the URL in the configuration file.'' [] w1)
              else (Inl e, [], w1))
         | (Inr rsp, w1) \<Rightarrow>
             (if \<not> ok rsp then
                (Inr (Some False), [],
                 LOGGER_error (''Response status is '' @ [CHR 0x22] @ ''%s'' @ [CHR 0x22])
                   [status_code rsp] w1)
              else
                (case (if use_get then Some (Get (RestDataGet_init res vfy))
                       else if use_post then Some (Post (RestDataPost_init res pl vfy))
                       else None) of
                   None \<Rightarrow> (Inl UnboundLocalError, [], w1)
                 | Some r \<Rightarrow>
                     (case RestSensor_init render c h r (config_get (cfg_name cfg) DEFAULT_NAME)
                             (cfg_unit_of_measurement cfg) (cfg_value_template cfg) w1 of
                        (Inl e, sensor, w2) \<Rightarrow> (Inl e, [], w2)
                      | (Inr u, sensor, w2) \<Rightarrow> (Inr None, [[sensor]], w2)))))"

text \<open>
  The preflight request of \<open>setup_platform\<close> when the method is \<open>'GET'\<close> or
  \<open>'POST'\<close>.
\<close>

definition setup_request :: "config \<Rightarrow> request" where
  "setup_request cfg =
     (if config_get (cfg_method cfg) DEFAULT_METHOD = ''GET'' then
        \<lparr>req_method = GET, req_url = cfg_resource cfg, req_data = None, req_timeout = 10,
         req_verify = config_get (cfg_verify_ssl cfg) True\<rparr>
      else
        \<lparr>req_method = POST, req_url = cfg_resource cfg, req_data = cfg_payload cfg,
         req_timeout = 10, req_verify = config_get (cfg_verify_ssl cfg) True\<rparr>)"

section \<open>Properties\<close>

subsection \<open>Shared lemmas\<close>

lemmas py_defs = py_contains_def py_delitem_def py_setitem_def py_getitem_def
lemmas io_defs = requests_get_def requests_post_def LOGGER_error_def

lemmas fetcher_defs =
  RestDataGet_update_def RestDataGet_update_body_def RestDataGet_update_try_def
  RestDataPost_update_def RestDataPost_update_body_def RestDataPost_update_try_def
  RestDataGet_init_def RestDataPost_init_def Throttle_def Throttle_due_def
  MIN_TIME_BETWEEN_UPDATES_def fetcher_update_def fetcher_data_def

lemmas sensor_defs = RestSensor_init_def RestSensor_update_def

lemma str_contains_sublist: "str_contains sub s = sublist sub s"
  by (induction s) (auto simp: sublist_Cons_right)

lemma Throttle_not_due:
  "\<not> Throttle_due m (last_call self) t \<Longrightarrow> Throttle m method t f self w = (Inr (), self, w)"
  by (simp add: Throttle_def)

lemma Throttle_due_run:
  "Throttle_due m (last_call self) t \<Longrightarrow>
   Throttle m method t f self w =
     (case method (target self) w of
        (Inr u, s, w') \<Rightarrow> (Inr u, \<lparr>target = s, last_call = Some f\<rparr>, w')
      | (Inl e, s, w') \<Rightarrow> (Inl e, \<lparr>target = s, last_call = last_call self\<rparr>, w'))"
  by (simp add: Throttle_def)

text \<open>The body of the GET fetcher, outcome by outcome.\<close>

lemma get_body_Returns:
  assumes "nw (get_request self) = Returns rsp"
  shows "RestDataGet_update_body nw self w =
    (case RestDataGet.data self of
       Str s \<Rightarrow> if str_contains ''error'' s
                then (Inl TypeError, self, w\<lparr>requested := requested w @ [get_request self]\<rparr>)
                else (Inr (), self\<lparr>RestDataGet.data := Str (resp_text rsp)\<rparr>,
                      w\<lparr>requested := requested w @ [get_request self]\<rparr>)
     | Dict d \<Rightarrow> (Inr (), self\<lparr>RestDataGet.data := Str (resp_text rsp)\<rparr>,
                      w\<lparr>requested := requested w @ [get_request self]\<rparr>))"
  using assms
  by (simp add: RestDataGet_update_body_def RestDataGet_update_try_def requests_get_def
      get_request_def py_defs Let_def split: pyval.splits)

lemma get_body_Raises:
  assumes "nw (get_request self) = Raises e"
  shows "RestDataGet_update_body nw self w =
    (if isinstance_ConnectionError e then
       (case RestDataGet.data self of
          Str s \<Rightarrow> (Inl TypeError, self,
                    LOGGER_error ''No route to resource/endpoint.'' []
                      (w\<lparr>requested := requested w @ [get_request self]\<rparr>))
        | Dict d \<Rightarrow> (Inr (), self\<lparr>RestDataGet.data := Dict (d(''error'' \<mapsto> ''N/A''))\<rparr>,
                    LOGGER_error ''No route to resource/endpoint.'' []
                      (w\<lparr>requested := requested w @ [get_request self]\<rparr>)))
     else (Inl e, self, w\<lparr>requested := requested w @ [get_request self]\<rparr>))"
  using assms
  by (simp add: RestDataGet_update_body_def RestDataGet_update_try_def requests_get_def
      get_request_def py_defs Let_def split: pyval.splits)

lemma post_body_Returns:
  assumes "nw (post_request self) = Returns rsp"
  shows "RestDataPost_update_body nw self w =
    (case RestDataPost.data self of
       Str s \<Rightarrow> if str_contains ''error'' s
                then (Inl TypeError, self, w\<lparr>requested := requested w @ [post_request self]\<rparr>)
                else (Inr (), self\<lparr>RestDataPost.data := Str (resp_text rsp)\<rparr>,
                      w\<lparr>requested := requested w @ [post_request self]\<rparr>)
     | Dict d \<Rightarrow> (Inr (), self\<lparr>RestDataPost.data := Str (resp_text rsp)\<rparr>,
                      w\<lparr>requested := requested w @ [post_request self]\<rparr>))"
  using assms
  by (simp add: RestDataPost_update_body_def RestDataPost_update_try_def requests_post_def
      post_request_def py_defs Let_def split: pyval.splits)

lemma post_body_Raises:
  assumes "nw (post_request self) = Raises e"
  shows "RestDataPost_update_body nw self w =
    (if isinstance_ConnectionError e then
       (case RestDataPost.data self of
          Str s \<Rightarrow> (Inl TypeError, self,
                    LOGGER_error ''No route to resource/endpoint.'' []
                      (w\<lparr>requested := requested w @ [post_request self]\<rparr>))
        | Dict d \<Rightarrow> (Inr (), self\<lparr>RestDataPost.data := Dict (d(''error'' \<mapsto> ''N/A''))\<rparr>,
                    LOGGER_error ''No route to resource/endpoint.'' []
                      (w\<lparr>requested := requested w @ [post_request self]\<rparr>)))
     else (Inl e, self, w\<lparr>requested := requested w @ [post_request self]\<rparr>))"
  using assms
  by (simp add: RestDataPost_update_body_def RestDataPost_update_try_def requests_post_def
      post_request_def py_defs Let_def split: pyval.splits)

subsection \<open>A cached string and the dictionary operations\<close>

text \<open>
  Claim C5. When the cached value is a string that contains \<open>error\<close>, a call of
  \<open>update\<close> that passes the throttle gate raises \<open>TypeError\<close>, in the GET and in the
  POST fetcher: after a response, from \<open>del self.data['error']\<close>; after a connection
  failure, from \<open>self.data['error'] = 'N/A'\<close>. The object is left as it was.
\<close>

theorem update_with_error_string_raises_TypeError:
  assumes "str_contains ''error'' s"
    and "RestDataGet.data (target g) = Str s"
    and "RestDataPost.data (target p) = Str s"
    and "Throttle_due MIN_TIME_BETWEEN_UPDATES (last_call g) (now c)"
    and "Throttle_due MIN_TIME_BETWEEN_UPDATES (last_call p) (now c)"
    and "case network c (get_request (target g)) of
           Returns rsp \<Rightarrow> True | Raises e \<Rightarrow> isinstance_ConnectionError e"
    and "case network c (post_request (target p)) of
           Returns rsp \<Rightarrow> True | Raises e \<Rightarrow> isinstance_ConnectionError e"
  shows "fst (RestDataGet_update c g w) = Inl TypeError \<and> fst (snd (RestDataGet_update c g w)) = g
       \<and> fst (RestDataPost_update c p w) = Inl TypeError \<and> fst (snd (RestDataPost_update c p w)) = p"
proof -
  have get: "RestDataGet_update_body (network c) (target g) w =
               (Inl TypeError, target g, snd (snd (RestDataGet_update_body (network c) (target g) w)))"
  proof (cases "network c (get_request (target g))")
    case (Returns rsp)
    then show ?thesis using assms(1,2) by (simp add: get_body_Returns)
  next
    case (Raises e)
    then show ?thesis using assms(2,6) by (simp add: get_body_Raises)
  qed
  have post: "RestDataPost_update_body (network c) (target p) w =
               (Inl TypeError, target p, snd (snd (RestDataPost_update_body (network c) (target p) w)))"
  proof (cases "network c (post_request (target p))")
    case (Returns rsp)
    then show ?thesis using assms(1,3) by (simp add: post_body_Returns)
  next
    case (Raises e)
    then show ?thesis using assms(3,7) by (simp add: post_body_Raises)
  qed
  have "fst (RestDataGet_update c g w) = Inl TypeError \<and> fst (snd (RestDataGet_update c g w)) = g"
    using assms(4) by (subst (1 2) RestDataGet_update_def, subst (1 2) Throttle_due_run, simp, subst (1 2) get, simp)
  moreover
  have "fst (RestDataPost_update c p w) = Inl TypeError \<and> fst (snd (RestDataPost_update c p w)) = p"
    using assms(5) by (subst (1 2) RestDataPost_update_def, subst (1 2) Throttle_due_run, simp, subst (1 2) post, simp)
  ultimately show ?thesis by simp
qed

theorem update_with_error_string_raises_TypeError_witness:
  "str_contains ''error'' ''error: none''
   \<and> fst (RestDataGet_update
            \<lparr>now = 0, fin = 1, network = (\<lambda>r. Returns \<lparr>ok = True, status_code = 200, resp_text = ''7''\<rparr>)\<rparr>
            \<lparr>target = \<lparr>RestDataGet.resource = Some ''http://host/a'', RestDataGet.verify_ssl = True,
                       RestDataGet.data = Str ''error: none''\<rparr>,
             last_call = None\<rparr>
            \<lparr>requested = [], logged = []\<rparr>) = Inl TypeError
   \<and> fst (RestDataPost_update
            \<lparr>now = 0, fin = 1, network = (\<lambda>r. Returns \<lparr>ok = True, status_code = 200, resp_text = ''7''\<rparr>)\<rparr>
            \<lparr>target = \<lparr>resource = Some ''http://host/a'', payload = Some ''foo=bar'', verify_ssl = True,
                       data = Str ''error: none''\<rparr>,
             last_call = None\<rparr>
            \<lparr>requested = [], logged = []\<rparr>) = Inl TypeError"
  using update_with_error_string_raises_TypeError
    [of "''error: none''"
        "\<lparr>target = \<lparr>RestDataGet.resource = Some ''http://host/a'', RestDataGet.verify_ssl = True,
                       RestDataGet.data = Str ''error: none''\<rparr>,
          last_call = None\<rparr>"
        "\<lparr>target = \<lparr>resource = Some ''http://host/a'', payload = Some ''foo=bar'', verify_ssl = True,
                    data = Str ''error: none''\<rparr>,
          last_call = None\<rparr>"
        "\<lparr>now = 0, fin = 1, network = (\<lambda>r. Returns \<lparr>ok = True, status_code = 200, resp_text = ''7''\<rparr>)\<rparr>"
        "\<lparr>requested = [], logged = []\<rparr>"]
  by (simp add: Throttle_due_def)

text \<open>
  Claim C1. The claim: a connection failure during a poll replaces the cached value by
  the sentinel and nothing is raised, whatever the cache held before, a fetched body
  included. The code at a cache that holds a fetched body: a sensor is constructed on a
  fresh GET fetcher while the resource answers \<open>42.5\<close>, and publishes \<open>42.5\<close>; at the
  next poll, more than 60 s later, the connection fails. \<open>self.data['error'] = 'N/A'\<close>
  is applied to the string, \<open>TypeError\<close> leaves \<open>RestDataGet.update\<close> and
  \<open>RestSensor.update\<close>, and the cache and the state still hold \<open>42.5\<close>.
\<close>

theorem connection_failure_after_fetch_raises_TypeError:
  "(case RestSensor_init (\<lambda>h t v e. e)
           \<lparr>now = 0, fin = 1,
            network = (\<lambda>r. Returns \<lparr>ok = True, status_code = 200, resp_text = ''42.5''\<rparr>)\<rparr>
           () (Get (RestDataGet_init (Some ''http://host/a'') True)) ''REST Sensor'' None None
           \<lparr>requested = [], logged = []\<rparr> of
      (res1, s1, w1) \<Rightarrow>
        res1 = Inr () \<and> state s1 = Str ''42.5'' \<and>
        (case RestSensor_update (\<lambda>h t v e. e)
                \<lparr>now = 60000001, fin = 60000002, network = (\<lambda>r. Raises ConnectionError)\<rparr> s1 w1 of
           (res2, s2, w2) \<Rightarrow>
             res2 = Inl TypeError \<and> state s2 = Str ''42.5'' \<and> fetcher_data (rest s2) = Str ''42.5''
             \<and> length (requested w2) = 2))"
  by (simp add: sensor_defs fetcher_defs py_defs io_defs)

text \<open>
  Claim C3. The claim: with no template, a successful fetch publishes the body as
  received, whatever the body. The code at the body \<open>error: none\<close>: the sensor of the
  scenario above polls again more than 60 s later and the resource answers
  \<open>error: none\<close>. The fetcher caches the body, \<open>'error' in value\<close> holds of the
  string, \<open>value['error']\<close> raises \<open>TypeError\<close>, and the state still is \<open>42.5\<close>.
\<close>

theorem body_containing_error_raises_TypeError:
  "(case RestSensor_init (\<lambda>h t v e. e)
           \<lparr>now = 0, fin = 1,
            network = (\<lambda>r. Returns \<lparr>ok = True, status_code = 200, resp_text = ''42.5''\<rparr>)\<rparr>
           () (Get (RestDataGet_init (Some ''http://host/a'') True)) ''REST Sensor'' None None
           \<lparr>requested = [], logged = []\<rparr> of
      (res1, s1, w1) \<Rightarrow>
        res1 = Inr () \<and> state s1 = Str ''42.5'' \<and>
        (case RestSensor_update (\<lambda>h t v e. e)
                \<lparr>now = 60000001, fin = 60000002,
                 network = (\<lambda>r. Returns \<lparr>ok = True, status_code = 200, resp_text = ''error: none''\<rparr>)\<rparr>
                s1 w1 of
           (res2, s2, w2) \<Rightarrow>
             res2 = Inl TypeError \<and> state s2 = Str ''42.5''
             \<and> fetcher_data (rest s2) = Str ''error: none''))"
  by (simp add: sensor_defs fetcher_defs py_defs io_defs)

subsection \<open>Timeouts\<close>

text \<open>
  Claim C4, as stated, fails: a fresh GET fetcher whose request raises \<open>ReadTimeout\<close>.
  The exception is no \<open>ConnectionError\<close>; it leaves \<open>update\<close>, nothing is logged and
  the cache is still the empty dictionary.
\<close>

theorem read_timeout_propagates_counterexample:
  "RestDataGet_update \<lparr>now = 0, fin = 1, network = (\<lambda>r. Raises ReadTimeout)\<rparr>
     (RestDataGet_init (Some ''http://host/a'') True) \<lparr>requested = [], logged = []\<rparr>
   = (Inl ReadTimeout, RestDataGet_init (Some ''http://host/a'') True,
      \<lparr>requested = [\<lparr>req_method = GET, req_url = Some ''http://host/a'', req_data = None,
                      req_timeout = 10, req_verify = True\<rparr>],
       logged = []\<rparr>)"
  by (simp add: fetcher_defs io_defs)

text \<open>
  Claim C4, amended. In a poll that passes the gate, a request that raises
  \<open>ReadTimeout\<close> is not handled: the exception leaves \<open>update\<close>, of the GET and of the
  POST fetcher, the request is the only effect, and the fetcher is as it was. A request
  that raises \<open>ConnectTimeout\<close>, which is a \<open>ConnectionError\<close>, is handled as a
  connection failure is: the call does what it does when the network raises
  \<open>ConnectionError\<close>.
\<close>

theorem timeout_handling:
  assumes "Throttle_due MIN_TIME_BETWEEN_UPDATES (last_call g) (now c)"
    and "Throttle_due MIN_TIME_BETWEEN_UPDATES (last_call p) (now c)"
    and "network c (get_request (target g)) = Raises ReadTimeout"
    and "network c (post_request (target p)) = Raises ReadTimeout"
    and "now c' = now c"
    and "network c' (get_request (target g)) = Raises ConnectTimeout"
    and "network c' (post_request (target p)) = Raises ConnectTimeout"
  shows "RestDataGet_update c g w =
           (Inl ReadTimeout, g, w\<lparr>requested := requested w @ [get_request (target g)]\<rparr>)
       \<and> RestDataPost_update c p w =
           (Inl ReadTimeout, p, w\<lparr>requested := requested w @ [post_request (target p)]\<rparr>)
       \<and> RestDataGet_update c' g w =
           RestDataGet_update (c'\<lparr>network := (\<lambda>r. Raises ConnectionError)\<rparr>) g w
       \<and> RestDataPost_update c' p w =
           RestDataPost_update (c'\<lparr>network := (\<lambda>r. Raises ConnectionError)\<rparr>) p w"
  using assms
  by (simp add: RestDataGet_update_def RestDataPost_update_def Throttle_due_run
      get_body_Raises post_body_Raises)

theorem timeout_handling_witness:
  "RestDataGet_update \<lparr>now = 0, fin = 1, network = (\<lambda>r. Raises ReadTimeout)\<rparr>
     (RestDataGet_init (Some ''http://host/a'') True) \<lparr>requested = [], logged = []\<rparr>
   = (Inl ReadTimeout, RestDataGet_init (Some ''http://host/a'') True,
      \<lparr>requested = [get_request (target (RestDataGet_init (Some ''http://host/a'') True))],
       logged = []\<rparr>)
   \<and> RestDataPost_update \<lparr>now = 0, fin = 1, network = (\<lambda>r. Raises ReadTimeout)\<rparr>
     (RestDataPost_init (Some ''http://host/a'') (Some ''foo=bar'') True) \<lparr>requested = [], logged = []\<rparr>
   = (Inl ReadTimeout, RestDataPost_init (Some ''http://host/a'') (Some ''foo=bar'') True,
      \<lparr>requested = [post_request (target (RestDataPost_init (Some ''http://host/a'') (Some ''foo=bar'') True))],
       logged = []\<rparr>)
   \<and> RestDataGet_update \<lparr>now = 0, fin = 1, network = (\<lambda>r. Raises ConnectTimeout)\<rparr>
     (RestDataGet_init (Some ''http://host/a'') True) \<lparr>requested = [], logged = []\<rparr>
   = RestDataGet_update \<lparr>now = 0, fin = 1, network = (\<lambda>r. Raises ConnectionError)\<rparr>
     (RestDataGet_init (Some ''http://host/a'') True) \<lparr>requested = [], logged = []\<rparr>"
  using timeout_handling
    [of "RestDataGet_init (Some ''http://host/a'') True"
        "\<lparr>now = 0, fin = 1, network = (\<lambda>r. Raises ReadTimeout)\<rparr>"
        "RestDataPost_init (Some ''http://host/a'') (Some ''foo=bar'') True"
        "\<lparr>now = 0, fin = 1, network = (\<lambda>r. Raises ConnectTimeout)\<rparr>"
        "\<lparr>requested = [], logged = []\<rparr>"]
  by (simp add: Throttle_due_def RestDataGet_init_def RestDataPost_init_def)

subsection \<open>Setting the platform up\<close>

text \<open>
  Claim C10. When the method of the configuration is neither \<open>'GET'\<close> nor \<open>'POST'\<close>,
  \<open>setup_platform\<close> raises \<open>UnboundLocalError\<close>: it makes no request, logs nothing,
  returns no value and never calls \<open>add_devices\<close>.
\<close>

theorem setup_platform_unknown_method_raises:
  assumes "config_get (cfg_method cfg) DEFAULT_METHOD \<noteq> ''GET''"
    and "config_get (cfg_method cfg) DEFAULT_METHOD \<noteq> ''POST''"
  shows "setup_platform render nw0 c h cfg w = (Inl UnboundLocalError, [], w)"
  using assms by (simp add: setup_platform_def Let_def)

theorem setup_platform_unknown_method_raises_witness:
  "setup_platform (\<lambda>h t v e. e) (\<lambda>r. Returns \<lparr>ok = True, status_code = 200, resp_text = ''1''\<rparr>)
     \<lparr>now = 0, fin = 1, network = (\<lambda>r. Returns \<lparr>ok = True, status_code = 200, resp_text = ''1''\<rparr>)\<rparr>
     ()
     \<lparr>cfg_resource = Some ''http://host/a'', cfg_method = Some ''PUT'', cfg_payload = None,
      cfg_verify_ssl = None, cfg_name = None, cfg_unit_of_measurement = None,
      cfg_value_template = None\<rparr>
     \<lparr>requested = [], logged = []\<rparr>
   = (Inl UnboundLocalError, [], \<lparr>requested = [], logged = []\<rparr>)"
  using setup_platform_unknown_method_raises
    [of "\<lparr>cfg_resource = Some ''http://host/a'', cfg_method = Some ''PUT'', cfg_payload = None,
      cfg_verify_ssl = None, cfg_name = None, cfg_unit_of_measurement = None,
      cfg_value_template = None\<rparr>"
      "(\<lambda>h t v e. e)" "(\<lambda>r. Returns \<lparr>ok = True, status_code = 200, resp_text = ''1''\<rparr>)"
      "\<lparr>now = 0, fin = 1, network = (\<lambda>r. Returns \<lparr>ok = True, status_code = 200, resp_text = ''1''\<rparr>)\<rparr>"
      "()" "\<lparr>requested = [], logged = []\<rparr>"]
  by (simp add: config_get_def)

text \<open>
  Claim C6, as stated, fails at a malformed scheme: the resource is \<open>htp://host/a\<close>
  and the preflight request raises \<open>InvalidSchema\<close>. Neither \<open>except\<close> clause takes
  it: the exception leaves \<open>setup_platform\<close>, nothing is logged and \<open>False\<close> is not
  returned.
\<close>

theorem setup_platform_invalid_schema_counterexample:
  "setup_platform (\<lambda>h t v e. e) (\<lambda>r. Raises InvalidSchema)
     \<lparr>now = 0, fin = 1, network = (\<lambda>r. Raises InvalidSchema)\<rparr>
     ()
     \<lparr>cfg_resource = Some ''htp://host/a'', cfg_method = None, cfg_payload = None,
      cfg_verify_ssl = None, cfg_name = None, cfg_unit_of_measurement = None,
      cfg_value_template = None\<rparr>
     \<lparr>requested = [], logged = []\<rparr>
   = (Inl InvalidSchema, [],
      \<lparr>requested = [\<lparr>req_method = GET, req_url = Some ''htp://host/a'', req_data = None,
                      req_timeout = 10, req_verify = True\<rparr>],
       logged = []\<rparr>)"
  by (simp add: setup_platform_def config_get_def DEFAULT_METHOD_def Let_def io_defs)

text \<open>
  Claim C6, amended. When the method is \<open>'GET'\<close> or \<open>'POST'\<close> and the preflight
  request raises \<open>MissingSchema\<close>, raises a \<open>ConnectionError\<close>, or returns a response
  that is not \<open>ok\<close>, \<open>setup_platform\<close> returns \<open>False\<close>, never calls \<open>add_devices\<close>,
  and its only effects are the request and one logged error, which carries the status
  code when there is a response. When the preflight request raises any other exception,
  as \<open>InvalidSchema\<close> for a malformed scheme, the exception leaves \<open>setup_platform\<close>:
  the request is the only effect, nothing is logged, and \<open>add_devices\<close> is not called
  either.
\<close>

theorem setup_platform_preflight_failure:
  assumes "config_get (cfg_method cfg) DEFAULT_METHOD = ''GET''
           \<or> config_get (cfg_method cfg) DEFAULT_METHOD = ''POST''"
    and "case nw0 (setup_request cfg) of
           Raises e \<Rightarrow> isinstance_MissingSchema e \<or> isinstance_ConnectionError e
         | Returns rsp \<Rightarrow> \<not> ok rsp"
    and "nw1 (setup_request cfg) = Raises e1"
    and "\<not> isinstance_MissingSchema e1" and "\<not> isinstance_ConnectionError e1"
  shows "setup_platform render nw0 c h cfg w =
    (Inr (Some False), [],
     \<lparr>requested = requested w @ [setup_request cfg],
      logged = logged w @
        [case nw0 (setup_request cfg) of
           Raises e \<Rightarrow>
             if isinstance_MissingSchema e then
               \<lparr>msg = ''Missing resource or schema in configuration. Add http:// to your URL.'',
                args = []\<rparr>
             else
               \<lparr>msg = ''No route to resource/endpoint. Please check the URL in the configuration file.'',
                args = []\<rparr>
         | Returns rsp \<Rightarrow>
             \<lparr>msg = ''Response status is '' @ [CHR 0x22] @ ''%s'' @ [CHR 0x22],
              args = [status_code rsp]\<rparr>]\<rparr>)
    \<and> setup_platform render nw1 c h cfg w =
    (Inl e1, [], \<lparr>requested = requested w @ [setup_request cfg], logged = logged w\<rparr>)"
proof (cases "config_get (cfg_method cfg) DEFAULT_METHOD = ''GET''")
  case True
  then show ?thesis using assms(2,3,4,5)
    by (cases "nw0 (setup_request cfg)")
       (auto simp: setup_platform_def setup_request_def Let_def io_defs)
next
  case False
  then have "config_get (cfg_method cfg) DEFAULT_METHOD = ''POST''" using assms(1) by simp
  with False show ?thesis using assms(2,3,4,5)
    by (cases "nw0 (setup_request cfg)")
       (auto simp: setup_platform_def setup_request_def Let_def io_defs)
qed

theorem setup_platform_preflight_failure_witness:
  "setup_platform (\<lambda>h t v e. e)
     (\<lambda>r. Returns \<lparr>ok = False, status_code = 404, resp_text = ''Not Found''\<rparr>)
     \<lparr>now = 0, fin = 1, network = (\<lambda>r. Returns \<lparr>ok = True, status_code = 200, resp_text = ''1''\<rparr>)\<rparr>
     ()
     \<lparr>cfg_resource = Some ''http://host/a'', cfg_method = None, cfg_payload = None,
      cfg_verify_ssl = None, cfg_name = None, cfg_unit_of_measurement = None,
      cfg_value_template = None\<rparr>
     \<lparr>requested = [], logged = []\<rparr>
   = (Inr (Some False), [],
      \<lparr>requested = [\<lparr>req_method = GET, req_url = Some ''http://host/a'', req_data = None,
                      req_timeout = 10, req_verify = True\<rparr>],
       logged = [\<lparr>msg = ''Response status is '' @ [CHR 0x22] @ ''%s'' @ [CHR 0x22], args = [404]\<rparr>]\<rparr>)
   \<and> setup_platform (\<lambda>h t v e. e) (\<lambda>r. Raises InvalidSchema)
     \<lparr>now = 0, fin = 1, network = (\<lambda>r. Returns \<lparr>ok = True, status_code = 200, resp_text = ''1''\<rparr>)\<rparr>
     ()
     \<lparr>cfg_resource = Some ''http://host/a'', cfg_method = None, cfg_payload = None,
      cfg_verify_ssl = None, cfg_name = None, cfg_unit_of_measurement = None,
      cfg_value_template = None\<rparr>
     \<lparr>requested = [], logged = []\<rparr>
   = (Inl InvalidSchema, [],
      \<lparr>requested = [\<lparr>req_method = GET, req_url = Some ''http://host/a'', req_data = None,
                      req_timeout = 10, req_verify = True\<rparr>],
       logged = []\<rparr>)"
  using setup_platform_preflight_failure
    [of "\<lparr>cfg_resource = Some ''http://host/a'', cfg_method = None, cfg_payload = None,
      cfg_verify_ssl = None, cfg_name = None, cfg_unit_of_measurement = None,
      cfg_value_template = None\<rparr>"
      "(\<lambda>r. Returns \<lparr>ok = False, status_code = 404, resp_text = ''Not Found''\<rparr>)"
      "(\<lambda>r. Raises InvalidSchema)" InvalidSchema
      "(\<lambda>h t v e. e)"
      "\<lparr>now = 0, fin = 1, network = (\<lambda>r. Returns \<lparr>ok = True, status_code = 200, resp_text = ''1''\<rparr>)\<rparr>"
      "()" "\<lparr>requested = [], logged = []\<rparr>"]
  by (simp add: config_get_def setup_request_def DEFAULT_METHOD_def)

subsection \<open>One call of a throttled fetcher\<close>

lemma get_update_step:
  assumes "RestDataGet_update c g w = (res, g', w')"
  shows "if Throttle_due MIN_TIME_BETWEEN_UPDATES (last_call g) (now c) then
           requested w' = requested w @ [get_request (target g)]
           \<and> get_request (target g') = get_request (target g)
           \<and> last_call g' = (if res = Inr () then Some (fin c) else last_call g)
         else res = Inr () \<and> g' = g \<and> w' = w"
proof (cases "Throttle_due MIN_TIME_BETWEEN_UPDATES (last_call g) (now c)")
  case False
  then show ?thesis using assms by (simp add: RestDataGet_update_def Throttle_not_due)
next
  case True
  show ?thesis
  proof (cases "network c (get_request (target g))")
    case (Returns rsp)
    with True assms show ?thesis
      by (auto simp: RestDataGet_update_def Throttle_due_run get_body_Returns get_request_def
          split: pyval.splits if_splits)
  next
    case (Raises e)
    with True assms show ?thesis
      by (auto simp: RestDataGet_update_def Throttle_due_run get_body_Raises get_request_def
          LOGGER_error_def split: pyval.splits if_splits)
  qed
qed

lemma post_update_step:
  assumes "RestDataPost_update c p w = (res, p', w')"
  shows "if Throttle_due MIN_TIME_BETWEEN_UPDATES (last_call p) (now c) then
           requested w' = requested w @ [post_request (target p)]
           \<and> post_request (target p') = post_request (target p)
           \<and> last_call p' = (if res = Inr () then Some (fin c) else last_call p)
         else res = Inr () \<and> p' = p \<and> w' = w"
proof (cases "Throttle_due MIN_TIME_BETWEEN_UPDATES (last_call p) (now c)")
  case False
  then show ?thesis using assms by (simp add: RestDataPost_update_def Throttle_not_due)
next
  case True
  show ?thesis
  proof (cases "network c (post_request (target p))")
    case (Returns rsp)
    with True assms show ?thesis
      by (auto simp: RestDataPost_update_def Throttle_due_run post_body_Returns post_request_def
          split: pyval.splits if_splits)
  next
    case (Raises e)
    with True assms show ?thesis
      by (auto simp: RestDataPost_update_def Throttle_due_run post_body_Raises post_request_def
          LOGGER_error_def split: pyval.splits if_splits)
  qed
qed

lemma fetcher_update_step:
  assumes "fetcher_update c r w = (res, r', w')"
  shows "if Throttle_due MIN_TIME_BETWEEN_UPDATES (fetcher_last_call r) (now c) then
           requested w' = requested w @ [fetcher_request r]
           \<and> fetcher_request r' = fetcher_request r
           \<and> fetcher_last_call r' = (if res = Inr () then Some (fin c) else fetcher_last_call r)
         else res = Inr () \<and> r' = r \<and> w' = w"
proof (cases r)
  case (Get g)
  obtain res1 g' w1 where u: "RestDataGet_update c g w = (res1, g', w1)"
    by (cases "RestDataGet_update c g w") auto
  with assms Get have "res = res1" "r' = Get g'" "w' = w1"
    by (simp_all add: fetcher_update_def)
  with get_update_step[OF u] Get show ?thesis
    by (simp add: fetcher_last_call_def fetcher_request_def)
next
  case (Post p)
  obtain res1 p' w1 where u: "RestDataPost_update c p w = (res1, p', w1)"
    by (cases "RestDataPost_update c p w") auto
  with assms Post have "res = res1" "r' = Post p'" "w' = w1"
    by (simp_all add: fetcher_update_def)
  with post_update_step[OF u] Post show ?thesis
    by (simp add: fetcher_last_call_def fetcher_request_def)
qed

lemma poll_requests:
  "\<exists>k. requested (snd (poll cs r w)) = requested w @ replicate k (fetcher_request r)"
proof (induction cs arbitrary: r w)
  case Nil
  have "requested (snd (poll [] r w)) = requested w @ replicate 0 (fetcher_request r)" by simp
  then show ?case by blast
next
  case (Cons c cs)
  obtain res r' w' where u: "fetcher_update c r w = (res, r', w')"
    by (cases "fetcher_update c r w") auto
  from Cons.IH[of r' w'] obtain k where
    k: "requested (snd (poll cs r' w')) = requested w' @ replicate k (fetcher_request r')" by blast
  show ?case
  proof (cases "Throttle_due MIN_TIME_BETWEEN_UPDATES (fetcher_last_call r) (now c)")
    case True
    with fetcher_update_step[OF u] k u
    have "requested (snd (poll (c # cs) r w)) = requested w @ replicate (Suc k) (fetcher_request r)"
      by simp
    then show ?thesis by blast
  next
    case False
    with fetcher_update_step[OF u] k u
    have "requested (snd (poll (c # cs) r w)) = requested w @ replicate k (fetcher_request r)"
      by simp
    then show ?thesis by blast
  qed
qed

lemma request_times_after:
  assumes "clock_ok t0 cs" and "fetcher_last_call r = Some t" and "t \<le> t0"
  shows "\<forall>x \<in> set (request_times cs r w). MIN_TIME_BETWEEN_UPDATES \<le> fst x - t"
  using assms
proof (induction cs arbitrary: r w t0 t)
  case Nil
  then show ?case by simp
next
  case (Cons c cs)
  obtain res r' w' where u: "fetcher_update c r w = (res, r', w')"
    by (cases "fetcher_update c r w") auto
  from Cons.prems have clk: "t0 \<le> now c" "now c \<le> fin c" "clock_ok (fin c) cs" by simp_all
  have tfin: "t \<le> fin c" using Cons.prems(3) clk by simp
  show ?case
  proof (cases "requested w' \<noteq> requested w")
    case True
    with fetcher_update_step[OF u] have
      due: "Throttle_due MIN_TIME_BETWEEN_UPDATES (fetcher_last_call r) (now c)"
      and lc: "fetcher_last_call r' = (if res = Inr () then Some (fin c) else fetcher_last_call r)"
      by (auto split: if_splits)
    from due Cons.prems(2) have gap: "MIN_TIME_BETWEEN_UPDATES \<le> now c - t"
      by (simp add: Throttle_due_def)
    have rest: "\<forall>x \<in> set (request_times cs r' w'). MIN_TIME_BETWEEN_UPDATES \<le> fst x - t"
    proof (cases "res = Inr ()")
      case True
      with lc have lc': "fetcher_last_call r' = Some (fin c)" by simp
      from Cons.IH[OF clk(3) lc', of w'] have
        "\<forall>x \<in> set (request_times cs r' w'). MIN_TIME_BETWEEN_UPDATES \<le> fst x - fin c" by simp
      with tfin show ?thesis by fastforce
    next
      case False
      with lc Cons.prems(2) have lc': "fetcher_last_call r' = Some t" by simp
      from Cons.IH[OF clk(3) lc' tfin, of w'] show ?thesis .
    qed
    with gap u True show ?thesis by simp
  next
    case False
    with fetcher_update_step[OF u] have "r' = r" by (auto split: if_splits)
    with Cons.prems(2) have lc': "fetcher_last_call r' = Some t" by simp
    from Cons.IH[OF clk(3) lc' tfin, of w'] u False show ?thesis by simp
  qed
qed

lemma request_times_apart:
  assumes "clock_ok t0 cs" and "\<forall>t. fetcher_last_call r = Some t \<longrightarrow> t \<le> t0"
  shows "sorted_wrt (\<lambda>a b. snd (snd a) \<longrightarrow> MIN_TIME_BETWEEN_UPDATES \<le> fst b - fst (snd a))
           (request_times cs r w)"
  using assms
proof (induction cs arbitrary: r w t0)
  case Nil
  then show ?case by simp
next
  case (Cons c cs)
  obtain res r' w' where u: "fetcher_update c r w = (res, r', w')"
    by (cases "fetcher_update c r w") auto
  from Cons.prems have clk: "t0 \<le> now c" "now c \<le> fin c" "clock_ok (fin c) cs" by simp_all
  have lc': "\<forall>t. fetcher_last_call r' = Some t \<longrightarrow> t \<le> fin c"
    using fetcher_update_step[OF u] Cons.prems(2) clk by (auto split: if_splits)
  from Cons.IH[OF clk(3) lc', of w'] have
    tl: "sorted_wrt (\<lambda>a b. snd (snd a) \<longrightarrow> MIN_TIME_BETWEEN_UPDATES \<le> fst b - fst (snd a))
           (request_times cs r' w')" .
  show ?case
  proof (cases "requested w' \<noteq> requested w")
    case True
    have "res = Inr () \<longrightarrow>
            (\<forall>x \<in> set (request_times cs r' w'). MIN_TIME_BETWEEN_UPDATES \<le> fst x - fin c)"
    proof
      assume ok: "res = Inr ()"
      with True fetcher_update_step[OF u] have lc: "fetcher_last_call r' = Some (fin c)"
        by (auto split: if_splits)
      from request_times_after[OF clk(3) lc, of w']
      show "\<forall>x \<in> set (request_times cs r' w'). MIN_TIME_BETWEEN_UPDATES \<le> fst x - fin c"
        by simp
    qed
    with tl u True show ?thesis by simp
  next
    case False
    with tl u show ?thesis by simp
  qed
qed

subsection \<open>The requests of a fetcher\<close>

text \<open>
  Claim C7. A POST fetcher constructed with a payload string sends, in every call that
  passes the gate, one POST request whose \<open>data\<close> is that payload, and over any
  sequence of polls its requests are copies of that one request. A GET fetcher sends,
  in every call that passes the gate, one GET request without \<open>data\<close>, and over any
  sequence of polls only copies of it.
\<close>

theorem fetch_request_fixed:
  assumes "RestDataPost.payload (target p) = Some pl"
    and "Throttle_due MIN_TIME_BETWEEN_UPDATES (last_call p) (now c)"
    and "Throttle_due MIN_TIME_BETWEEN_UPDATES (last_call g) (now c)"
  shows "requested (snd (snd (RestDataPost_update c p w))) =
           requested w @ [\<lparr>req_method = POST, req_url = RestDataPost.resource (target p),
                           req_data = Some pl, req_timeout = 10,
                           req_verify = RestDataPost.verify_ssl (target p)\<rparr>]
       \<and> (\<exists>k. requested (snd (poll cs (Post p) w)) =
             requested w @ replicate k
               \<lparr>req_method = POST, req_url = RestDataPost.resource (target p),
                req_data = Some pl, req_timeout = 10,
                req_verify = RestDataPost.verify_ssl (target p)\<rparr>)
       \<and> requested (snd (snd (RestDataGet_update c g w))) =
           requested w @ [\<lparr>req_method = GET, req_url = RestDataGet.resource (target g),
                           req_data = None, req_timeout = 10,
                           req_verify = RestDataGet.verify_ssl (target g)\<rparr>]
       \<and> (\<exists>k. requested (snd (poll cs (Get g) w)) =
             requested w @ replicate k
               \<lparr>req_method = GET, req_url = RestDataGet.resource (target g),
                req_data = None, req_timeout = 10,
                req_verify = RestDataGet.verify_ssl (target g)\<rparr>)"
proof -
  obtain res1 p' w1 where up: "RestDataPost_update c p w = (res1, p', w1)"
    by (cases "RestDataPost_update c p w") auto
  obtain res2 g' w2 where ug: "RestDataGet_update c g w = (res2, g', w2)"
    by (cases "RestDataGet_update c g w") auto
  have "requested w1 = requested w @ [post_request (target p)]"
    using post_update_step[OF up] assms(2) by simp
  then have a: "requested (snd (snd (RestDataPost_update c p w))) =
                  requested w @ [post_request (target p)]"
    using up by simp
  have "requested w2 = requested w @ [get_request (target g)]"
    using get_update_step[OF ug] assms(3) by simp
  then have b: "requested (snd (snd (RestDataGet_update c g w))) =
                  requested w @ [get_request (target g)]"
    using ug by simp
  from a b poll_requests[of cs "Post p" w] poll_requests[of cs "Get g" w] assms(1)
  show ?thesis
    by (simp add: fetcher_request_def post_request_def get_request_def)
qed

theorem fetch_request_fixed_witness:
  "requested (snd (poll
       [\<lparr>now = 0, fin = 1, network = (\<lambda>r. Returns \<lparr>ok = True, status_code = 200, resp_text = ''1''\<rparr>)\<rparr>,
        \<lparr>now = 30000000, fin = 30000001, network = (\<lambda>r. Raises ConnectionError)\<rparr>,
        \<lparr>now = 61000000, fin = 61000001, network = (\<lambda>r. Returns \<lparr>ok = True, status_code = 200, resp_text = ''2''\<rparr>)\<rparr>]
       (Post (RestDataPost_init (Some ''http://host/a'') (Some ''foo=bar'') True))
       \<lparr>requested = [], logged = []\<rparr>))
   = replicate 2 \<lparr>req_method = POST, req_url = Some ''http://host/a'', req_data = Some ''foo=bar'',
                   req_timeout = 10, req_verify = True\<rparr>
   \<and> requested (snd (snd (RestDataGet_update
       \<lparr>now = 0, fin = 1, network = (\<lambda>r. Returns \<lparr>ok = True, status_code = 200, resp_text = ''1''\<rparr>)\<rparr>
       (RestDataGet_init (Some ''http://host/a'') True) \<lparr>requested = [], logged = []\<rparr>)))
   = [\<lparr>req_method = GET, req_url = Some ''http://host/a'', req_data = None,
       req_timeout = 10, req_verify = True\<rparr>]"
  using fetch_request_fixed
    [of "RestDataPost_init (Some ''http://host/a'') (Some ''foo=bar'') True" "''foo=bar''"
        "\<lparr>now = 0, fin = 1, network = (\<lambda>r. Returns \<lparr>ok = True, status_code = 200, resp_text = ''1''\<rparr>)\<rparr>"
        "RestDataGet_init (Some ''http://host/a'') True"
        "\<lparr>requested = [], logged = []\<rparr>"
        "[\<lparr>now = 0, fin = 1, network = (\<lambda>r. Returns \<lparr>ok = True, status_code = 200, resp_text = ''1''\<rparr>)\<rparr>,
        \<lparr>now = 30000000, fin = 30000001, network = (\<lambda>r. Raises ConnectionError)\<rparr>,
        \<lparr>now = 61000000, fin = 61000001, network = (\<lambda>r. Returns \<lparr>ok = True, status_code = 200, resp_text = ''2''\<rparr>)\<rparr>]"]
  by (simp add: RestDataGet_update_def RestDataGet_update_body_def RestDataGet_update_try_def
      RestDataPost_update_def RestDataPost_update_body_def RestDataPost_update_try_def
      RestDataGet_init_def RestDataPost_init_def Throttle_def Throttle_due_def
      MIN_TIME_BETWEEN_UPDATES_def fetcher_update_def py_defs io_defs numeral_2_eq_2)

subsection \<open>The throttle gate\<close>

text \<open>
  Claim C2, as stated, fails when a run raises: a fresh GET fetcher is called at 0 and
  the request raises \<open>ReadTimeout\<close>; it is called again 2 microseconds later and the
  resource answers. The first run does not arm the gate, so the second call, made
  within the minimum interval of a call that executed, is no no-op: both calls make
  their request.
\<close>

theorem requests_within_interval_counterexample:
  "poll [\<lparr>now = 0, fin = 1, network = (\<lambda>r. Raises ReadTimeout)\<rparr>,
         \<lparr>now = 2, fin = 3,
          network = (\<lambda>r. Returns \<lparr>ok = True, status_code = 200, resp_text = ''1''\<rparr>)\<rparr>]
     (Get (RestDataGet_init (Some ''http://host/a'') True)) \<lparr>requested = [], logged = []\<rparr>
   = (Get \<lparr>target = \<lparr>RestDataGet.resource = Some ''http://host/a'',
                        RestDataGet.verify_ssl = True, RestDataGet.data = Str ''1''\<rparr>,
            last_call = Some 3\<rparr>,
      \<lparr>requested = [\<lparr>req_method = GET, req_url = Some ''http://host/a'', req_data = None,
                      req_timeout = 10, req_verify = True\<rparr>,
                     \<lparr>req_method = GET, req_url = Some ''http://host/a'', req_data = None,
                      req_timeout = 10, req_verify = True\<rparr>],
       logged = []\<rparr>)"
  by (simp add: fetcher_defs py_defs io_defs)

text \<open>
  Claim C2, amended. For the throttled \<open>update\<close> of either fetcher, with the minimum
  interval of 60 s: a fetcher that has never run makes its request at the first call; a
  call made less than the interval after the last run that completed is a no-op, which
  returns with the fetcher, its cached value and the log of requests unchanged; and over
  every sequence of calls under a clock that does not run backwards, every call that
  makes a request, whether it then returns or raises, starts at least the interval
  after each earlier run that completed. Only a run that raises leaves the gate open
  for the next call.
\<close>

theorem throttled_update_once_per_interval:
  assumes "fetcher_last_call r1 = None"
    and "fetcher_last_call r2 = Some t"
    and "now c2 - t < MIN_TIME_BETWEEN_UPDATES"
    and "clock_ok t0 cs"
    and "\<forall>t. fetcher_last_call r3 = Some t \<longrightarrow> t \<le> t0"
  shows "requested (snd (snd (fetcher_update c1 r1 w1))) = requested w1 @ [fetcher_request r1]
       \<and> fetcher_update c2 r2 w2 = (Inr (), r2, w2)
       \<and> sorted_wrt (\<lambda>a b. snd (snd a) \<longrightarrow> MIN_TIME_BETWEEN_UPDATES \<le> fst b - fst (snd a))
            (request_times cs r3 w3)
       \<and> MIN_TIME_BETWEEN_UPDATES = 60 * 1000000"
proof -
  obtain res r' w' where u1: "fetcher_update c1 r1 w1 = (res, r', w')"
    by (cases "fetcher_update c1 r1 w1") auto
  have "requested w' = requested w1 @ [fetcher_request r1]"
    using fetcher_update_step[OF u1] assms(1) by (simp add: Throttle_due_def)
  then have a: "requested (snd (snd (fetcher_update c1 r1 w1))) = requested w1 @ [fetcher_request r1]"
    using u1 by simp
  obtain res2 r2' w2' where u2: "fetcher_update c2 r2 w2 = (res2, r2', w2')"
    by (cases "fetcher_update c2 r2 w2") auto
  have "\<not> Throttle_due MIN_TIME_BETWEEN_UPDATES (fetcher_last_call r2) (now c2)"
    using assms(2,3) by (simp add: Throttle_due_def)
  with fetcher_update_step[OF u2] u2 have b: "fetcher_update c2 r2 w2 = (Inr (), r2, w2)"
    by simp
  from a b request_times_apart[OF assms(4,5), of w3] show ?thesis
    by (simp add: MIN_TIME_BETWEEN_UPDATES_def)
qed

theorem throttled_update_once_per_interval_witness:
  "request_times
     [\<lparr>now = 0, fin = 1, network = (\<lambda>r. Returns \<lparr>ok = True, status_code = 200, resp_text = ''1''\<rparr>)\<rparr>,
      \<lparr>now = 30000000, fin = 30000001, network = (\<lambda>r. Returns \<lparr>ok = True, status_code = 200, resp_text = ''2''\<rparr>)\<rparr>,
      \<lparr>now = 61000000, fin = 61000001, network = (\<lambda>r. Raises ReadTimeout)\<rparr>,
      \<lparr>now = 61000002, fin = 61000003, network = (\<lambda>r. Returns \<lparr>ok = True, status_code = 200, resp_text = ''3''\<rparr>)\<rparr>]
     (Get (RestDataGet_init (Some ''http://host/a'') True)) \<lparr>requested = [], logged = []\<rparr>
   = [(0, 1, True), (61000000, 61000001, False), (61000002, 61000003, True)]
   \<and> requested (snd (snd (fetcher_update
        \<lparr>now = 0, fin = 1, network = (\<lambda>r. Returns \<lparr>ok = True, status_code = 200, resp_text = ''1''\<rparr>)\<rparr>
        (Get (RestDataGet_init (Some ''http://host/a'') True)) \<lparr>requested = [], logged = []\<rparr>)))
     = [\<lparr>req_method = GET, req_url = Some ''http://host/a'', req_data = None,
         req_timeout = 10, req_verify = True\<rparr>]
   \<and> fetcher_update
        \<lparr>now = 30000000, fin = 30000001, network = (\<lambda>r. Returns \<lparr>ok = True, status_code = 200, resp_text = ''2''\<rparr>)\<rparr>
        (Post \<lparr>target = \<lparr>resource = Some ''http://host/a'', payload = Some ''foo=bar'', verify_ssl = True,
                         data = Str ''1''\<rparr>, last_call = Some 1\<rparr>)
        \<lparr>requested = [], logged = []\<rparr>
     = (Inr (),
        Post \<lparr>target = \<lparr>resource = Some ''http://host/a'', payload = Some ''foo=bar'', verify_ssl = True,
                         data = Str ''1''\<rparr>, last_call = Some 1\<rparr>,
        \<lparr>requested = [], logged = []\<rparr>)
   \<and> sorted_wrt (\<lambda>a b. snd (snd a) \<longrightarrow> MIN_TIME_BETWEEN_UPDATES \<le> fst b - fst (snd a))
        [(0, 1, True), (61000000, 61000001, False), (61000002, 61000003, True)]"
  using throttled_update_once_per_interval
    [of "Get (RestDataGet_init (Some ''http://host/a'') True)"
        "Post \<lparr>target = \<lparr>resource = Some ''http://host/a'', payload = Some ''foo=bar'', verify_ssl = True,
                         data = Str ''1''\<rparr>, last_call = Some 1\<rparr>"
        1
        "\<lparr>now = 30000000, fin = 30000001, network = (\<lambda>r. Returns \<lparr>ok = True, status_code = 200, resp_text = ''2''\<rparr>)\<rparr>"
        0
        "[\<lparr>now = 0, fin = 1, network = (\<lambda>r. Returns \<lparr>ok = True, status_code = 200, resp_text = ''1''\<rparr>)\<rparr>,
      \<lparr>now = 30000000, fin = 30000001, network = (\<lambda>r. Returns \<lparr>ok = True, status_code = 200, resp_text = ''2''\<rparr>)\<rparr>,
      \<lparr>now = 61000000, fin = 61000001, network = (\<lambda>r. Raises ReadTimeout)\<rparr>,
      \<lparr>now = 61000002, fin = 61000003, network = (\<lambda>r. Returns \<lparr>ok = True, status_code = 200, resp_text = ''3''\<rparr>)\<rparr>]"
        "Get (RestDataGet_init (Some ''http://host/a'') True)"
        "\<lparr>now = 0, fin = 1, network = (\<lambda>r. Returns \<lparr>ok = True, status_code = 200, resp_text = ''1''\<rparr>)\<rparr>"
        "\<lparr>requested = [], logged = []\<rparr>"
        "\<lparr>requested = [], logged = []\<rparr>"
        "\<lparr>requested = [], logged = []\<rparr>"]
  by (simp add: RestDataGet_update_def RestDataGet_update_body_def RestDataGet_update_try_def
      RestDataPost_update_def RestDataPost_update_body_def RestDataPost_update_try_def
      RestDataGet_init_def RestDataPost_init_def Throttle_def Throttle_due_def
      MIN_TIME_BETWEEN_UPDATES_def fetcher_update_def fetcher_last_call_def fetcher_request_def
      get_request_def py_defs io_defs)

subsection \<open>The published state\<close>

text \<open>What \<open>RestSensor.update\<close> does once the fetcher's \<open>update\<close> has returned.\<close>

lemma RestSensor_update_publish:
  assumes "fetcher_update c (rest self) w = (Inr (), r, w1)"
  shows "RestSensor_update render c self w =
    (if py_contains ''error'' (fetcher_data r) then
       (case py_getitem (fetcher_data r) ''error'' of
          Inl e \<Rightarrow> (Inl e, self\<lparr>rest := r\<rparr>, w1)
        | Inr x \<Rightarrow> (Inr (), self\<lparr>rest := r, state := x\<rparr>, w1))
     else
       (Inr (),
        self\<lparr>rest := r,
             state := (case value_template self of
                         Some t \<Rightarrow> Str (render (hass self) t (fetcher_data r) ''N/A'')
                       | None \<Rightarrow> fetcher_data r)\<rparr>,
        w1))"
  using assms by (simp add: RestSensor_update_def Let_def split: sum.splits option.splits)

lemma RestSensor_update_raise:
  assumes "fetcher_update c (rest self) w = (Inl e, r, w1)"
  shows "RestSensor_update render c self w = (Inl e, self\<lparr>rest := r\<rparr>, w1)"
  using assms by (simp add: RestSensor_update_def)

text \<open>
  Claim C8, as stated, fails for a pair of calls that straddles the end of a window: a
  sensor has fetched \<open>42.5\<close>, its fetcher having run at 1. A call at 59 s is throttled
  and publishes \<open>42.5\<close>; a call at 61 s, 2 s after it, passes the gate, fetches \<open>99\<close>
  and publishes \<open>99\<close>.
\<close>

theorem states_differ_across_window_counterexample:
  "RestSensor_update (\<lambda>h t v e. e)
     \<lparr>now = 59000000, fin = 59000001,
      network = (\<lambda>r. Returns \<lparr>ok = True, status_code = 200, resp_text = ''99''\<rparr>)\<rparr>
     \<lparr>hass = (),
      rest = Get \<lparr>target = \<lparr>RestDataGet.resource = Some ''http://host/a'',
                              RestDataGet.verify_ssl = True, RestDataGet.data = Str ''42.5''\<rparr>,
                  last_call = Some 1\<rparr>,
      name = ''REST Sensor'', state = Str ''42.5'', unit_of_measurement = None,
      value_template = None\<rparr>
     \<lparr>requested = [], logged = []\<rparr>
   = (Inr (),
      \<lparr>hass = (),
       rest = Get \<lparr>target = \<lparr>RestDataGet.resource = Some ''http://host/a'',
                               RestDataGet.verify_ssl = True, RestDataGet.data = Str ''42.5''\<rparr>,
                   last_call = Some 1\<rparr>,
       name = ''REST Sensor'', state = Str ''42.5'', unit_of_measurement = None,
       value_template = None\<rparr>,
      \<lparr>requested = [], logged = []\<rparr>)
   \<and> RestSensor_update (\<lambda>h t v e. e)
     \<lparr>now = 61000000, fin = 61000001,
      network = (\<lambda>r. Returns \<lparr>ok = True, status_code = 200, resp_text = ''99''\<rparr>)\<rparr>
     \<lparr>hass = (),
      rest = Get \<lparr>target = \<lparr>RestDataGet.resource = Some ''http://host/a'',
                              RestDataGet.verify_ssl = True, RestDataGet.data = Str ''42.5''\<rparr>,
                  last_call = Some 1\<rparr>,
      name = ''REST Sensor'', state = Str ''42.5'', unit_of_measurement = None,
      value_template = None\<rparr>
     \<lparr>requested = [], logged = []\<rparr>
   = (Inr (),
      \<lparr>hass = (),
       rest = Get \<lparr>target = \<lparr>RestDataGet.resource = Some ''http://host/a'',
                               RestDataGet.verify_ssl = True, RestDataGet.data = Str ''99''\<rparr>,
                   last_call = Some 61000001\<rparr>,
       name = ''REST Sensor'', state = Str ''99'', unit_of_measurement = None,
       value_template = None\<rparr>,
      \<lparr>requested = [\<lparr>req_method = GET, req_url = Some ''http://host/a'', req_data = None,
                      req_timeout = 10, req_verify = True\<rparr>],
       logged = []\<rparr>)
   \<and> (61000000 :: int) - 59000000 < MIN_TIME_BETWEEN_UPDATES"
  by (simp add: RestSensor_update_def RestDataGet_update_def RestDataGet_update_body_def
      RestDataGet_update_try_def Throttle_def Throttle_due_def MIN_TIME_BETWEEN_UPDATES_def
      fetcher_update_def fetcher_data_def py_defs io_defs)

text \<open>
  Claim C8, amended. Two calls of \<open>RestSensor.update\<close>, one after the other under a
  clock that does not run backwards, of which the second is made less than the minimum
  interval after the last completed run of the fetcher, so that both lie in the throttle
  window of that run. Then the second call makes no request, ends as the first call
  did, returning or raising, and leaves the sensor, its published state included,
  exactly as the first call left it.
\<close>

theorem RestSensor_update_idempotent_in_window:
  assumes "RestSensor_update render c1 s0 w0 = (res1, s1, w1)"
    and "now c1 \<le> now c2"
    and "fetcher_last_call (rest s1) = Some t"
    and "now c2 - t < MIN_TIME_BETWEEN_UPDATES"
  shows "RestSensor_update render c2 s1 w1 = (res1, s1, w1)
       \<and> state (fst (snd (RestSensor_update render c2 s1 w1))) = state s1"
proof -
  obtain res r wa where u1: "fetcher_update c1 (rest s0) w0 = (res, r, wa)"
    by (cases "fetcher_update c1 (rest s0) w0") auto
  have res: "res = Inr ()"
  proof (cases res)
    case (Inl e)
    with u1 assms(1) have s1: "s1 = s0\<lparr>rest := r\<rparr>" by (simp add: RestSensor_update_raise)
    from Inl fetcher_update_step[OF u1] have
      due: "Throttle_due MIN_TIME_BETWEEN_UPDATES (fetcher_last_call (rest s0)) (now c1)"
      and lc: "fetcher_last_call r = fetcher_last_call (rest s0)"
      by (auto split: if_splits)
    from s1 lc assms(3) have "fetcher_last_call (rest s0) = Some t" by simp
    with due have "MIN_TIME_BETWEEN_UPDATES \<le> now c1 - t" by (simp add: Throttle_due_def)
    with assms(2,4) show ?thesis by simp
  next
    case (Inr u)
    then show ?thesis by simp
  qed
  note first = assms(1)[unfolded RestSensor_update_publish[OF u1[unfolded res]]]
  obtain res2 r2 w2 where u2: "fetcher_update c2 (rest s1) w1 = (res2, r2, w2)"
    by (cases "fetcher_update c2 (rest s1) w1") auto
  have "\<not> Throttle_due MIN_TIME_BETWEEN_UPDATES (fetcher_last_call (rest s1)) (now c2)"
    using assms(3,4) by (simp add: Throttle_due_def)
  with fetcher_update_step[OF u2] u2 have skip: "fetcher_update c2 (rest s1) w1 = (Inr (), rest s1, w1)"
    by simp
  have "RestSensor_update render c2 s1 w1 = (res1, s1, w1)"
    using first
    by (subst RestSensor_update_publish[OF skip])
       (auto split: if_splits sum.splits option.splits)
  then show ?thesis by simp
qed

theorem RestSensor_update_idempotent_in_window_witness:
  "RestSensor_update (\<lambda>h t v e. e)
     \<lparr>now = 0, fin = 1, network = (\<lambda>r. Returns \<lparr>ok = True, status_code = 200, resp_text = ''42.5''\<rparr>)\<rparr>
     \<lparr>hass = (), rest = Get (RestDataGet_init (Some ''http://host/a'') True), name = ''REST Sensor'',
      state = Str ''n/a'', unit_of_measurement = None, value_template = None\<rparr>
     \<lparr>requested = [], logged = []\<rparr>
   = (Inr (),
      \<lparr>hass = (),
       rest = Get \<lparr>target = \<lparr>RestDataGet.resource = Some ''http://host/a'',
                               RestDataGet.verify_ssl = True, RestDataGet.data = Str ''42.5''\<rparr>,
                   last_call = Some 1\<rparr>,
       name = ''REST Sensor'', state = Str ''42.5'', unit_of_measurement = None,
       value_template = None\<rparr>,
      \<lparr>requested = [\<lparr>req_method = GET, req_url = Some ''http://host/a'', req_data = None,
                      req_timeout = 10, req_verify = True\<rparr>],
       logged = []\<rparr>)
   \<and> state (fst (snd (RestSensor_update (\<lambda>h t v e. e)
     \<lparr>now = 30000000, fin = 30000001,
      network = (\<lambda>r. Returns \<lparr>ok = True, status_code = 200, resp_text = ''99''\<rparr>)\<rparr>
     \<lparr>hass = (),
       rest = Get \<lparr>target = \<lparr>RestDataGet.resource = Some ''http://host/a'',
                               RestDataGet.verify_ssl = True, RestDataGet.data = Str ''42.5''\<rparr>,
                   last_call = Some 1\<rparr>,
       name = ''REST Sensor'', state = Str ''42.5'', unit_of_measurement = None,
       value_template = None\<rparr>
     \<lparr>requested = [\<lparr>req_method = GET, req_url = Some ''http://host/a'', req_data = None,
                      req_timeout = 10, req_verify = True\<rparr>],
       logged = []\<rparr>))) = Str ''42.5''"
  using RestSensor_update_idempotent_in_window
    [of "(\<lambda>h t v e. e)"
        "\<lparr>now = 0, fin = 1, network = (\<lambda>r. Returns \<lparr>ok = True, status_code = 200, resp_text = ''42.5''\<rparr>)\<rparr>"
        "\<lparr>hass = (), rest = Get (RestDataGet_init (Some ''http://host/a'') True), name = ''REST Sensor'',
      state = Str ''n/a'', unit_of_measurement = None, value_template = None\<rparr>"
        "\<lparr>requested = [], logged = []\<rparr>"
        "Inr ()"
        "\<lparr>hass = (),
       rest = Get \<lparr>target = \<lparr>RestDataGet.resource = Some ''http://host/a'',
                               RestDataGet.verify_ssl = True, RestDataGet.data = Str ''42.5''\<rparr>,
                   last_call = Some 1\<rparr>,
       name = ''REST Sensor'', state = Str ''42.5'', unit_of_measurement = None,
       value_template = None\<rparr>"
        "\<lparr>requested = [\<lparr>req_method = GET, req_url = Some ''http://host/a'', req_data = None,
                      req_timeout = 10, req_verify = True\<rparr>],
       logged = []\<rparr>"
        "\<lparr>now = 30000000, fin = 30000001,
      network = (\<lambda>r. Returns \<lparr>ok = True, status_code = 200, resp_text = ''99''\<rparr>)\<rparr>"
        1]
  by (simp add: RestSensor_update_def RestDataGet_update_def RestDataGet_update_body_def
      RestDataGet_update_try_def RestDataGet_init_def Throttle_def Throttle_due_def
      MIN_TIME_BETWEEN_UPDATES_def fetcher_update_def fetcher_data_def fetcher_last_call_def
      py_defs io_defs)

text \<open>
  Claim C9, as stated, fails in two ways. A sensor constructed on a fresh GET fetcher
  whose request raises \<open>ReadTimeout\<close>: the exception leaves the constructor after the
  one request, and nothing was published, the state still being the placeholder. A
  sensor constructed at 2 on a fetcher that ran at 1 and caches \<open>42.5\<close>: the gate
  holds the update back, the constructor makes no request and publishes the cached
  \<open>42.5\<close>.
\<close>

theorem construction_without_fetch_and_publish_counterexample:
  "RestSensor_init (\<lambda>h t v e. e)
     \<lparr>now = 0, fin = 1, network = (\<lambda>r. Raises ReadTimeout)\<rparr>
     () (Get (RestDataGet_init (Some ''http://host/a'') True)) ''REST Sensor'' None None
     \<lparr>requested = [], logged = []\<rparr>
   = (Inl ReadTimeout,
      \<lparr>hass = (),
       rest = Get \<lparr>target = \<lparr>RestDataGet.resource = Some ''http://host/a'',
                               RestDataGet.verify_ssl = True, RestDataGet.data = Dict Map.empty\<rparr>,
                   last_call = None\<rparr>,
       name = ''REST Sensor'', state = Str ''n/a'', unit_of_measurement = None,
       value_template = None\<rparr>,
      \<lparr>requested = [\<lparr>req_method = GET, req_url = Some ''http://host/a'', req_data = None,
                      req_timeout = 10, req_verify = True\<rparr>],
       logged = []\<rparr>)
   \<and> RestSensor_init (\<lambda>h t v e. e)
     \<lparr>now = 2, fin = 3,
      network = (\<lambda>r. Returns \<lparr>ok = True, status_code = 200, resp_text = ''99''\<rparr>)\<rparr>
     ()
     (Get \<lparr>target = \<lparr>RestDataGet.resource = Some ''http://host/a'',
                       RestDataGet.verify_ssl = True, RestDataGet.data = Str ''42.5''\<rparr>,
           last_call = Some 1\<rparr>)
     ''REST Sensor'' None None \<lparr>requested = [], logged = []\<rparr>
   = (Inr (),
      \<lparr>hass = (),
       rest = Get \<lparr>target = \<lparr>RestDataGet.resource = Some ''http://host/a'',
                               RestDataGet.verify_ssl = True, RestDataGet.data = Str ''42.5''\<rparr>,
                   last_call = Some 1\<rparr>,
       name = ''REST Sensor'', state = Str ''42.5'', unit_of_measurement = None,
       value_template = None\<rparr>,
      \<lparr>requested = [], logged = []\<rparr>)"
  by (simp add: RestSensor_init_def RestSensor_update_def RestDataGet_update_def
      RestDataGet_update_body_def RestDataGet_update_try_def RestDataGet_init_def Throttle_def
      Throttle_due_def MIN_TIME_BETWEEN_UPDATES_def fetcher_update_def fetcher_data_def
      py_defs io_defs)

text \<open>
  Claim C9, amended. When the update of the constructor of \<open>RestSensor\<close> passes the
  throttle gate of its fetcher, as it does on every fetcher that has never run, the
  constructor makes exactly one request before it ends; and when it returns, the
  published state is what that fetch produced: the sentinel \<open>N/A\<close> after a connection
  failure, and after a response its body, passed through the template when one is
  configured. So the state is not the placeholder left in place.
\<close>

theorem RestSensor_init_publishes_fetch:
  assumes "Throttle_due MIN_TIME_BETWEEN_UPDATES (fetcher_last_call r) (now c)"
    and "RestSensor_init render c h r nm unit tmpl w = (res, s, w')"
  shows "requested w' = requested w @ [fetcher_request r]
       \<and> (res = Inr () \<longrightarrow>
            (\<exists>e. network c (fetcher_request r) = Raises e \<and> isinstance_ConnectionError e
                \<and> state s = Str ''N/A'')
          \<or> (\<exists>rsp. network c (fetcher_request r) = Returns rsp
                \<and> state s = (case tmpl of
                                None \<Rightarrow> Str (resp_text rsp)
                              | Some t \<Rightarrow> Str (render h t (Str (resp_text rsp)) ''N/A''))))"
proof -
  let ?s0 = "\<lparr>hass = h, rest = r, name = nm, state = Str ''n/a'', unit_of_measurement = unit,
              value_template = tmpl\<rparr>"
  have run: "RestSensor_update render c ?s0 w = (res, s, w')"
    using assms(2) by (simp add: RestSensor_init_def)
  obtain fres r' wa where u: "fetcher_update c r w = (fres, r', wa)"
    by (cases "fetcher_update c r w") auto
  have req: "requested wa = requested w @ [fetcher_request r]"
    using fetcher_update_step[OF u] assms(1) by simp
  have w': "w' = wa"
  proof (cases fres)
    case (Inl e)
    with u run show ?thesis by (simp add: RestSensor_update_raise)
  next
    case (Inr x)
    with u have "fetcher_update c (rest ?s0) w = (Inr (), r', wa)" by simp
    from run[unfolded RestSensor_update_publish[OF this]] show ?thesis
      by (auto split: if_splits sum.splits)
  qed
  have pubd: "(\<exists>e. network c (fetcher_request r) = Raises e \<and> isinstance_ConnectionError e
                  \<and> state s = Str ''N/A'')
            \<or> (\<exists>rsp. network c (fetcher_request r) = Returns rsp
                  \<and> state s = (case tmpl of
                                  None \<Rightarrow> Str (resp_text rsp)
                                | Some t \<Rightarrow> Str (render h t (Str (resp_text rsp)) ''N/A'')))"
    if ok: "res = Inr ()"
  proof -
    have fres: "fres = Inr ()"
    proof (cases fres)
      case (Inl e)
      with u run ok show ?thesis by (simp add: RestSensor_update_raise)
    next
      case (Inr x)
      then show ?thesis by simp
    qed
    have u': "fetcher_update c (rest ?s0) w = (Inr (), r', wa)" using u fres by simp
    note pub = run[unfolded RestSensor_update_publish[OF u'] ok]
    have data: "(\<exists>e d. network c (fetcher_request r) = Raises e \<and> isinstance_ConnectionError e
                   \<and> fetcher_data r' = Dict (d(''error'' \<mapsto> ''N/A'')))
              \<or> (\<exists>rsp. network c (fetcher_request r) = Returns rsp
                   \<and> fetcher_data r' = Str (resp_text rsp))"
    proof (cases r)
      case (Get g)
      show ?thesis
      proof (cases "network c (get_request (target g))")
        case (Returns rsp)
        with u fres Get assms(1) show ?thesis
          by (auto simp: fetcher_update_def fetcher_last_call_def fetcher_request_def
              fetcher_data_def RestDataGet_update_def Throttle_def
              get_body_Returns split: pyval.splits if_splits)
      next
        case (Raises e)
        with u fres Get assms(1) show ?thesis
          by (auto simp: fetcher_update_def fetcher_last_call_def fetcher_request_def
              fetcher_data_def RestDataGet_update_def Throttle_def
              get_body_Raises split: pyval.splits if_splits)
      qed
    next
      case (Post p)
      show ?thesis
      proof (cases "network c (post_request (target p))")
        case (Returns rsp)
        with u fres Post assms(1) show ?thesis
          by (auto simp: fetcher_update_def fetcher_last_call_def fetcher_request_def
              fetcher_data_def RestDataPost_update_def Throttle_def
              post_body_Returns split: pyval.splits if_splits)
      next
        case (Raises e)
        with u fres Post assms(1) show ?thesis
          by (auto simp: fetcher_update_def fetcher_last_call_def fetcher_request_def
              fetcher_data_def RestDataPost_update_def Throttle_def
              post_body_Raises split: pyval.splits if_splits)
      qed
    qed
    from data show ?thesis
    proof
      assume "\<exists>e d. network c (fetcher_request r) = Raises e \<and> isinstance_ConnectionError e
                   \<and> fetcher_data r' = Dict (d(''error'' \<mapsto> ''N/A''))"
      then obtain e d where e: "network c (fetcher_request r) = Raises e"
        "isinstance_ConnectionError e" "fetcher_data r' = Dict (d(''error'' \<mapsto> ''N/A''))"
        by blast
      from pub e(3) have "state s = Str ''N/A''"
        by (auto simp: py_defs split: if_splits)
      with e show ?thesis by blast
    next
      assume "\<exists>rsp. network c (fetcher_request r) = Returns rsp
                   \<and> fetcher_data r' = Str (resp_text rsp)"
      then obtain rsp where rsp: "network c (fetcher_request r) = Returns rsp"
        "fetcher_data r' = Str (resp_text rsp)" by blast
      from pub rsp(2) have "state s = (case tmpl of
                            None \<Rightarrow> Str (resp_text rsp)
                          | Some t \<Rightarrow> Str (render h t (Str (resp_text rsp)) ''N/A''))"
        by (auto simp: py_defs split: if_splits option.splits)
      with rsp show ?thesis by blast
    qed
  qed
  from req w' pubd show ?thesis by blast
qed

theorem RestSensor_init_publishes_fetch_witness:
  "RestSensor_init (\<lambda>h t v e. e)
     \<lparr>now = 0, fin = 1, network = (\<lambda>r. Returns \<lparr>ok = True, status_code = 200, resp_text = ''42.5''\<rparr>)\<rparr>
     () (Get (RestDataGet_init (Some ''http://host/a'') True)) ''REST Sensor'' None None
     \<lparr>requested = [], logged = []\<rparr>
   = (Inr (),
      \<lparr>hass = (),
       rest = Get \<lparr>target = \<lparr>RestDataGet.resource = Some ''http://host/a'',
                               RestDataGet.verify_ssl = True, RestDataGet.data = Str ''42.5''\<rparr>,
                   last_call = Some 1\<rparr>,
       name = ''REST Sensor'', state = Str ''42.5'', unit_of_measurement = None,
       value_template = None\<rparr>,
      \<lparr>requested = [\<lparr>req_method = GET, req_url = Some ''http://host/a'', req_data = None,
                      req_timeout = 10, req_verify = True\<rparr>],
       logged = []\<rparr>)
   \<and> Throttle_due MIN_TIME_BETWEEN_UPDATES
       (fetcher_last_call (Get (RestDataGet_init (Some ''http://host/a'') True))) 0
   \<and> requested \<lparr>requested = [\<lparr>req_method = GET, req_url = Some ''http://host/a'', req_data = None,
                      req_timeout = 10, req_verify = True\<rparr>],
       logged = []\<rparr>
     = [fetcher_request (Get (RestDataGet_init (Some ''http://host/a'') True))]"
  using RestSensor_init_publishes_fetch
    [of "Get (RestDataGet_init (Some ''http://host/a'') True)"
        "\<lparr>now = 0, fin = 1, network = (\<lambda>r. Returns \<lparr>ok = True, status_code = 200, resp_text = ''42.5''\<rparr>)\<rparr>"
        "(\<lambda>h t v e. e)"
        "()" "''REST Sensor''" None None "\<lparr>requested = [], logged = []\<rparr>"
        "Inr ()"
        "\<lparr>hass = (),
       rest = Get \<lparr>target = \<lparr>RestDataGet.resource = Some ''http://host/a'',
                               RestDataGet.verify_ssl = True, RestDataGet.data = Str ''42.5''\<rparr>,
                   last_call = Some 1\<rparr>,
       name = ''REST Sensor'', state = Str ''42.5'', unit_of_measurement = None,
       value_template = None\<rparr>"
        "\<lparr>requested = [\<lparr>req_method = GET, req_url = Some ''http://host/a'', req_data = None,
                      req_timeout = 10, req_verify = True\<rparr>],
       logged = []\<rparr>"]
  by (simp add: RestSensor_init_def RestSensor_update_def RestDataGet_update_def
      RestDataGet_update_body_def RestDataGet_update_try_def RestDataGet_init_def Throttle_def
      Throttle_due_def fetcher_update_def fetcher_data_def fetcher_last_call_def
      fetcher_request_def get_request_def py_defs io_defs)

end
